theory Spec2Isabelle
  imports Main "HOL-Library.Sublist"
begin

section \<open>JavaScript values\<close>

text \<open>
  The request engine of the ERP client is TypeScript that runs on the JavaScript platform.
  A value of type \<^verbatim>\<open>unknown\<close> (a request body, a decoded JSON document, a query
  parameter) is a \<open>jsvalue\<close> when it is a value of JSON or a \<^verbatim>\<open>FormData\<close>. A number is
  given by the text that \<^verbatim>\<open>String\<close> and template literals render it as (\<open>JNum ''9.99''\<close>,
  \<open>JNum ''1e+21''\<close>, \<open>JNum ''NaN''\<close>): different numbers have different texts, except the two
  zeros, which are both \<open>''0''\<close> and differ in nothing that is modelled here. Strings are
  byte lists: the UTF-8 encoding of the JavaScript string. \<open>JFormData\<close> is an instance of
  the platform class \<^verbatim>\<open>FormData\<close>, with its entries.
\<close>

datatype jsvalue =
    JUndefined
  | JNull
  | JBool bool
  | JNum string
  | JStr string
  | JArr "jsvalue list"
  | JObj "(string \<times> jsvalue) list"
  | JFormData "(string \<times> string) list"

text \<open>
  The truthiness test of \<^verbatim>\<open>if (v)\<close>, \<^verbatim>\<open>!v\<close>, \<^verbatim>\<open>v || w\<close> and \<^verbatim>\<open>v ? a : b\<close>. The falsy
  numbers are the zeros and \<^verbatim>\<open>NaN\<close>.
\<close>

fun truthy :: "jsvalue \<Rightarrow> bool" where
  "truthy JUndefined = False"
| "truthy JNull = False"
| "truthy (JBool b) = b"
| "truthy (JNum s) = (s \<noteq> ''0'' \<and> s \<noteq> ''NaN'')"
| "truthy (JStr s) = (s \<noteq> [])"
| "truthy (JArr xs) = True"
| "truthy (JObj fs) = True"
| "truthy (JFormData fd) = True"

text \<open>\<^verbatim>\<open>body instanceof FormData\<close>.\<close>

fun instanceofFormData :: "jsvalue \<Rightarrow> bool" where
  "instanceofFormData (JFormData fd) = True"
| "instanceofFormData v = False"

text \<open>Decimal numerals, as a template literal renders the status of a response.\<close>

fun nat_to_string :: "nat \<Rightarrow> string" where
  "nat_to_string n =
     (if n < 10 then [char_of (48 + n)]
      else nat_to_string (n div 10) @ [char_of (48 + n mod 10)])"

declare nat_to_string.simps [simp del]

definition int_to_string :: "int \<Rightarrow> string" where
  "int_to_string i = (if i < 0 then CHR ''-'' # nat_to_string (nat (- i)) else nat_to_string (nat i))"

fun join_comma :: "string list \<Rightarrow> string" where
  "join_comma [] = []"
| "join_comma [s] = s"
| "join_comma (s # t # ss) = s @ '','' @ join_comma (t # ss)"

section \<open>Error classes (utils/errors.ts)\<close>

text \<open>
  A thrown value. \<open>isError\<close> is \<^verbatim>\<open>e instanceof Error\<close>; \<open>name\<close> is the class name each
  constructor stores; \<open>status\<close> and \<open>response\<close> are the fields of \<^verbatim>\<open>ERPServiceError\<close>,
  absent on every other error.
\<close>

record js_error =
  isError :: bool
  name :: string
  message :: string
  status :: "int option"
  response :: "(int \<times> jsvalue) option"

definition Error_new :: "string \<Rightarrow> js_error" where
  "Error_new msg =
     \<lparr>isError = True, name = ''Error'', message = msg, status = None, response = None\<rparr>"

definition ERPServiceError_new :: "string \<Rightarrow> int option \<Rightarrow> (int \<times> jsvalue) option \<Rightarrow> js_error" where
  "ERPServiceError_new msg st resp =
     \<lparr>isError = True, name = ''ERPServiceError'', message = msg, status = st, response = resp\<rparr>"

text \<open>
  \<^verbatim>\<open>NetworkError\<close> calls \<^verbatim>\<open>super(message)\<close>: no status and no response. The original
  error only extends the stack trace, which is not modelled.
\<close>

definition NetworkError_new :: "string \<Rightarrow> js_error" where
  "NetworkError_new msg = (ERPServiceError_new msg None None)\<lparr>name := ''NetworkError''\<rparr>"

definition ValidationError_new :: "string \<Rightarrow> (int \<times> jsvalue) option \<Rightarrow> js_error" where
  "ValidationError_new msg resp =
     (ERPServiceError_new msg (Some 400) resp)\<lparr>name := ''ValidationError''\<rparr>"

definition AuthenticationError_new :: "string \<Rightarrow> (int \<times> jsvalue) option \<Rightarrow> js_error" where
  "AuthenticationError_new msg resp =
     (ERPServiceError_new msg (Some 401) resp)\<lparr>name := ''AuthenticationError''\<rparr>"

definition AuthorizationError_new :: "string \<Rightarrow> (int \<times> jsvalue) option \<Rightarrow> js_error" where
  "AuthorizationError_new msg resp =
     (ERPServiceError_new msg (Some 403) resp)\<lparr>name := ''AuthorizationError''\<rparr>"

definition NotFoundError_new :: "string \<Rightarrow> (int \<times> jsvalue) option \<Rightarrow> js_error" where
  "NotFoundError_new msg resp =
     (ERPServiceError_new msg (Some 404) resp)\<lparr>name := ''NotFoundError''\<rparr>"

definition ConflictError_new :: "string \<Rightarrow> (int \<times> jsvalue) option \<Rightarrow> js_error" where
  "ConflictError_new msg resp =
     (ERPServiceError_new msg (Some 409) resp)\<lparr>name := ''ConflictError''\<rparr>"

definition ServerError_new :: "string \<Rightarrow> int \<Rightarrow> (int \<times> jsvalue) option \<Rightarrow> js_error" where
  "ServerError_new msg st resp =
     (ERPServiceError_new msg (Some st) resp)\<lparr>name := ''ServerError''\<rparr>"

text \<open>A \<^verbatim>\<open>TypeError\<close> of the platform; the text of its message differs between platforms.\<close>

definition TypeError_new :: "string \<Rightarrow> js_error" where
  "TypeError_new msg =
     \<lparr>isError = True, name = ''TypeError'', message = msg, status = None, response = None\<rparr>"

text \<open>
  The string conversion \<^verbatim>\<open>String(v)\<close>, which the \<^verbatim>\<open>Error\<close> constructor applies to its
  message (\<^verbatim>\<open>super(message)\<close>); \<open>Inl\<close> is the \<^verbatim>\<open>TypeError\<close> it throws. An array joins
  the conversions of its elements with commas, \<^verbatim>\<open>null\<close> and \<^verbatim>\<open>undefined\<close> elements as
  the empty string. An object is converted by its \<^verbatim>\<open>toString\<close> method: the inherited one
  gives \<^verbatim>\<open>[object Object]\<close>; an own member of that name, which in a value of JSON is
  never a function, hides it, and the conversion throws.
\<close>

fun ToString :: "jsvalue \<Rightarrow> js_error + string"
  and ToString_elements :: "jsvalue list \<Rightarrow> js_error + string list" where
  "ToString JUndefined = Inr ''undefined''"
| "ToString JNull = Inr ''null''"
| "ToString (JBool b) = Inr (if b then ''true'' else ''false'')"
| "ToString (JNum s) = Inr s"
| "ToString (JStr s) = Inr s"
| "ToString (JArr xs) =
     (case ToString_elements xs of Inl e \<Rightarrow> Inl e | Inr ss \<Rightarrow> Inr (join_comma ss))"
| "ToString (JObj fs) =
     (if ''toString'' \<in> set (map fst fs)
      then Inl (TypeError_new ''Cannot convert object to primitive value'')
      else Inr ''[object Object]'')"
| "ToString (JFormData fd) = Inr ''[object FormData]''"
| "ToString_elements [] = Inr []"
| "ToString_elements (x # xs) =
     (case (if x = JUndefined \<or> x = JNull then Inr [] else ToString x) of
        Inl e \<Rightarrow> Inl e
      | Inr s \<Rightarrow> (case ToString_elements xs of Inl e \<Rightarrow> Inl e | Inr ss \<Rightarrow> Inr (s # ss)))"

text \<open>
  The kinds of the specification's Error Record are the classes of the code: the kind of
  an error is read off its class name, the base class being the Generic kind. An error of
  another class (\<^verbatim>\<open>Error\<close>, \<^verbatim>\<open>TypeError\<close>, the platform's \<^verbatim>\<open>AbortError\<close>) is no Error
  Record.
\<close>

datatype error_kind =
  Validation | Authentication | Authorization | NotFound | Conflict | Server | Network | Generic

definition kind :: "js_error \<Rightarrow> error_kind option" where
  "kind e =
     (if name e = ''ValidationError'' then Some Validation
      else if name e = ''AuthenticationError'' then Some Authentication
      else if name e = ''AuthorizationError'' then Some Authorization
      else if name e = ''NotFoundError'' then Some NotFound
      else if name e = ''ConflictError'' then Some Conflict
      else if name e = ''ServerError'' then Some Server
      else if name e = ''NetworkError'' then Some Network
      else if name e = ''ERPServiceError'' then Some Generic
      else None)"

text \<open>
  \<^verbatim>\<open>createErrorFromStatus(status, message, responseBody?)\<close>: the switch on the status, with
  the test \<^verbatim>\<open>status >= 500\<close> in its default branch. An omitted body is \<open>JUndefined\<close>.
\<close>

definition createErrorFromStatus :: "int \<Rightarrow> string \<Rightarrow> jsvalue \<Rightarrow> js_error" where
  "createErrorFromStatus st msg responseBody =
     (let resp = (if truthy responseBody then Some (st, responseBody) else None) in
      if st = 400 then ValidationError_new msg resp
      else if st = 401 then AuthenticationError_new msg resp
      else if st = 403 then AuthorizationError_new msg resp
      else if st = 404 then NotFoundError_new msg resp
      else if st = 409 then ConflictError_new msg resp
      else if st \<ge> 500 then ServerError_new msg st resp
      else ERPServiceError_new msg (Some st) resp)"

section \<open>Configuration (config.ts)\<close>

text \<open>
  \<^verbatim>\<open>ERPServiceConfig\<close> is what the user supplies: every field may be missing at run time
  (\<open>None\<close>). The token capability \<^verbatim>\<open>getAccessToken\<close> is a function of no argument: it
  is modelled by what it returns when called (\<open>Some None\<close> is a capability that returns
  \<^verbatim>\<open>undefined\<close>). \<^verbatim>\<open>ApiConfig\<close> is the normalized record.
\<close>

type_synonym headers = "string \<rightharpoonup> string"

record ERPServiceConfig =
  user_baseURL :: "string option"
  user_defaultHeaders :: "headers option"
  user_getAccessToken :: "string option option"
  user_timeout :: "int option"

record ApiConfig =
  baseURL :: string
  defaultHeaders :: headers
  getAccessToken :: "string option option"
  timeout :: int

text \<open>\<^verbatim>\<open>s.replace(/\/$/, '')\<close>: one slash at the end of the string is removed.\<close>

definition removeTrailingSlash :: "string \<Rightarrow> string" where
  "removeTrailingSlash s = (if s \<noteq> [] \<and> last s = CHR ''/'' then butlast s else s)"

definition validateConfig :: "ERPServiceConfig \<Rightarrow> js_error + ApiConfig" where
  "validateConfig config =
     (case user_baseURL config of
        None \<Rightarrow> Inl (Error_new ''ERPServiceConfig.baseURL is required'')
      | Some b \<Rightarrow>
          if b = [] then Inl (Error_new ''ERPServiceConfig.baseURL is required'')
          else Inr \<lparr>baseURL = removeTrailingSlash b,
                    defaultHeaders = (case user_defaultHeaders config of None \<Rightarrow> Map.empty | Some h \<Rightarrow> h),
                    getAccessToken = user_getAccessToken config,
                    timeout = (case user_timeout config of
                                 None \<Rightarrow> 30000
                               | Some t \<Rightarrow> if t = 0 then 30000 else t)\<rparr>)"

section \<open>The platform: URLs\<close>

text \<open>
  \<^verbatim>\<open>new URL(input, base)\<close>, \<^verbatim>\<open>url.searchParams.append\<close> and \<^verbatim>\<open>url.toString()\<close> belong
  to the platform, not to the repository. They are modelled after the WHATWG URL Standard
  on a fragment, and the model answers \<open>URL_unmodelled\<close> outside it, so that nothing is
  said about the program there. The fragment: the base is \<^verbatim>\<open>http://\<close> or \<^verbatim>\<open>https://\<close>,
  a host of lower-case labels (letters, digits, single hyphens; the last label starts with
  a letter), no port, and a path of the characters \<open>A-Z a-z 0-9 - _ . ~ /\<close>; the input is
  a string of these path characters. A base without any colon has no scheme, and the
  constructor throws a \<^verbatim>\<open>TypeError\<close>.
\<close>

record URL =
  url_scheme :: string
  url_host :: string
  url_path :: "string list"
  searchParams :: "(string \<times> string) list"

datatype URL_result = URL_ok URL | URL_TypeError | URL_unmodelled

definition is_lower :: "char \<Rightarrow> bool" where
  "is_lower c = (97 \<le> (of_char c :: nat) \<and> (of_char c :: nat) \<le> 122)"

definition is_upper :: "char \<Rightarrow> bool" where
  "is_upper c = (65 \<le> (of_char c :: nat) \<and> (of_char c :: nat) \<le> 90)"

definition is_digit :: "char \<Rightarrow> bool" where
  "is_digit c = (48 \<le> (of_char c :: nat) \<and> (of_char c :: nat) \<le> 57)"

definition is_alnum :: "char \<Rightarrow> bool" where
  "is_alnum c = (is_lower c \<or> is_upper c \<or> is_digit c)"

definition path_char :: "char \<Rightarrow> bool" where
  "path_char c = (is_alnum c \<or> c = CHR ''-'' \<or> c = CHR ''_'' \<or> c = CHR ''.'' \<or> c = CHR ''~'')"

definition plain_path :: "string \<Rightarrow> bool" where
  "plain_path s = list_all (\<lambda>c. path_char c \<or> c = CHR ''/'') s"

text \<open>\<open>split_on c s\<close> is \<^verbatim>\<open>s.split(c)\<close>: the pieces between the occurrences of \<open>c\<close>.\<close>

fun split_on :: "char \<Rightarrow> string \<Rightarrow> string list" where
  "split_on d [] = [[]]"
| "split_on d (c # cs) =
     (if c = d then [] # split_on d cs
      else (case split_on d cs of [] \<Rightarrow> [[c]] | s # ss \<Rightarrow> (c # s) # ss))"

definition plain_label :: "string \<Rightarrow> bool" where
  "plain_label l =
     (l \<noteq> [] \<and> list_all (\<lambda>c. is_lower c \<or> is_digit c \<or> c = CHR ''-'') l \<and> \<not> sublist ''--'' l)"

definition plain_host :: "string \<Rightarrow> bool" where
  "plain_host h =
     (list_all plain_label (split_on (CHR ''.'') h) \<and> is_lower (hd (last (split_on (CHR ''.'') h))))"

text \<open>
  The path state of the URL parser, on the segments between the slashes: a double-dot
  segment removes the last segment of the path, a single-dot segment is skipped, and either
  leaves an empty segment behind when it is the last one.
\<close>

fun path_state :: "string list \<Rightarrow> string list \<Rightarrow> string list" where
  "path_state path [] = path"
| "path_state path (seg # segs) =
     (if seg = ''..'' then path_state (butlast path @ (if segs = [] then [[]] else [])) segs
      else if seg = ''.'' then path_state (path @ (if segs = [] then [[]] else [])) segs
      else path_state (path @ [seg]) segs)"

text \<open>The path start state: one leading slash is skipped.\<close>

definition path_start :: "string \<Rightarrow> string list" where
  "path_start s =
     path_state [] (split_on (CHR ''/'') (if s \<noteq> [] \<and> hd s = CHR ''/'' then tl s else s))"

definition parse_base :: "string \<Rightarrow> URL option" where
  "parse_base b =
     (let sch = (if prefix ''https://'' b then ''https''
                 else if prefix ''http://'' b then ''http'' else []);
          rest = drop (length sch + 3) b;
          host = takeWhile (\<lambda>c. c \<noteq> CHR ''/'') rest;
          p = dropWhile (\<lambda>c. c \<noteq> CHR ''/'') rest
      in if sch \<noteq> [] \<and> plain_host host \<and> plain_path p
         then Some \<lparr>url_scheme = sch, url_host = host, url_path = path_start p, searchParams = []\<rparr>
         else None)"

text \<open>
  The input is resolved against the base: an empty input is the base; an input that starts
  with two slashes is scheme-relative, its first segment after the slashes being the host;
  an input that starts with one slash replaces the path of the base; any other input
  replaces the last segment of the base's path.
\<close>

definition URL_new :: "string \<Rightarrow> string \<Rightarrow> URL_result" where
  "URL_new input base =
     (if CHR '':'' \<notin> set base then URL_TypeError
      else case parse_base base of
        None \<Rightarrow> URL_unmodelled
      | Some b \<Rightarrow>
          if \<not> plain_path input then URL_unmodelled
          else if input = [] then URL_ok b
          else if prefix ''//'' input then
            (let r = dropWhile (\<lambda>c. c = CHR ''/'') input;
                 host = takeWhile (\<lambda>c. c \<noteq> CHR ''/'') r;
                 p = dropWhile (\<lambda>c. c \<noteq> CHR ''/'') r
             in if host = [] then URL_TypeError
                else if plain_host host
                then URL_ok (b\<lparr>url_host := host, url_path := path_start p\<rparr>)
                else URL_unmodelled)
          else if hd input = CHR ''/'' then URL_ok (b\<lparr>url_path := path_start input\<rparr>)
          else URL_ok (b\<lparr>url_path :=
                 path_state (butlast (url_path b)) (split_on (CHR ''/'') input)\<rparr>))"

text \<open>
  The serializer of \<^verbatim>\<open>application/x-www-form-urlencoded\<close>: letters, digits and \<open>* - . _\<close>
  stay, a space becomes \<open>+\<close>, every other byte becomes \<open>%XX\<close>.
\<close>

definition hex_digit :: "nat \<Rightarrow> char" where
  "hex_digit n = (if n < 10 then char_of (48 + n) else char_of (55 + n))"

definition urlencode_byte :: "char \<Rightarrow> string" where
  "urlencode_byte c =
     (if is_alnum c \<or> c = CHR ''*'' \<or> c = CHR ''-'' \<or> c = CHR ''.'' \<or> c = CHR ''_'' then [c]
      else if c = CHR '' '' then ''+''
      else [CHR ''%'', hex_digit ((of_char c :: nat) div 16), hex_digit ((of_char c :: nat) mod 16)])"

definition urlencode :: "string \<Rightarrow> string" where
  "urlencode s = concat (map urlencode_byte s)"

fun join_amp :: "string list \<Rightarrow> string" where
  "join_amp [] = []"
| "join_amp [s] = s"
| "join_amp (s # t # ss) = s @ ''&'' @ join_amp (t # ss)"

definition urlencoded_serialize :: "(string \<times> string) list \<Rightarrow> string" where
  "urlencoded_serialize ps = join_amp (map (\<lambda>(k, v). urlencode k @ ''='' @ urlencode v) ps)"

definition URL_append :: "URL \<Rightarrow> string \<Rightarrow> string \<Rightarrow> URL" where
  "URL_append url k v = url\<lparr>searchParams := searchParams url @ [(k, v)]\<rparr>"

definition URL_toString :: "URL \<Rightarrow> string" where
  "URL_toString url =
     url_scheme url @ ''://'' @ url_host url @ concat (map (\<lambda>s. CHR ''/'' # s) (url_path url))
     @ (if searchParams url = [] then [] else CHR ''?'' # urlencoded_serialize (searchParams url))"

section \<open>The platform: JSON\<close>

text \<open>
  \<^verbatim>\<open>JSON.parse\<close> belongs to the platform as well. The model is a recursive-descent parser
  of the JSON grammar with three answers: the value, a \<^verbatim>\<open>SyntaxError\<close>, or \<open>Unmodelled\<close>
  for a text outside the fragment it covers, about which nothing is said: a number with a
  fraction, an exponent or a value that is no safe integer (a safe integer is rendered as
  its decimal numeral), a \<^verbatim>\<open>\u\<close> escape, and nesting deeper than the fuel (twice the
  length of the text). An object keeps its members in the
  order of the text; reading a property takes the last member of that name.
\<close>

datatype 'a parse = Parsed 'a string | SyntaxError | Unmodelled

definition is_ws :: "char \<Rightarrow> bool" where
  "is_ws c = (c = CHR '' '' \<or> c = CHR 0x09 \<or> c = CHR 0x0A \<or> c = CHR 0x0D)"

definition skip_ws :: "string \<Rightarrow> string" where
  "skip_ws s = dropWhile is_ws s"

definition unescape :: "char \<Rightarrow> char option" where
  "unescape e =
     (if e = CHR 0x22 then Some (CHR 0x22)
      else if e = CHR 0x5C then Some (CHR 0x5C)
      else if e = CHR ''/'' then Some (CHR ''/'')
      else if e = CHR ''b'' then Some (CHR 0x08)
      else if e = CHR ''f'' then Some (CHR 0x0C)
      else if e = CHR ''n'' then Some (CHR 0x0A)
      else if e = CHR ''r'' then Some (CHR 0x0D)
      else if e = CHR ''t'' then Some (CHR 0x09)
      else None)"

text \<open>The characters of a string, after its opening quote.\<close>

fun parse_string :: "string \<Rightarrow> string parse" where
  "parse_string [] = SyntaxError"
| "parse_string (c # cs) =
     (if c = CHR 0x22 then Parsed [] cs
      else if c = CHR 0x5C then
        (case cs of
           [] \<Rightarrow> SyntaxError
         | e # cs' \<Rightarrow>
             (case unescape e of
                None \<Rightarrow> if e = CHR ''u'' then Unmodelled else SyntaxError
              | Some ch \<Rightarrow>
                  (case parse_string cs' of
                     Parsed s r \<Rightarrow> Parsed (ch # s) r
                   | SyntaxError \<Rightarrow> SyntaxError
                   | Unmodelled \<Rightarrow> Unmodelled)))
      else if (of_char c :: nat) < 32 then SyntaxError
      else (case parse_string cs of
              Parsed s r \<Rightarrow> Parsed (c # s) r
            | SyntaxError \<Rightarrow> SyntaxError
            | Unmodelled \<Rightarrow> Unmodelled))"

definition digits_value :: "string \<Rightarrow> int" where
  "digits_value ds = foldl (\<lambda>n c. 10 * n + ((of_char c :: int) - 48)) 0 ds"

text \<open>A number: an optional minus sign and digits without a leading zero.\<close>

definition parse_number :: "string \<Rightarrow> jsvalue parse" where
  "parse_number s =
     (let neg = (s \<noteq> [] \<and> hd s = CHR ''-'');
          t = (if neg then tl s else s);
          ds = takeWhile is_digit t;
          r = dropWhile is_digit t
      in if ds = [] then SyntaxError
         else if length ds > 1 \<and> hd ds = CHR ''0'' then SyntaxError
         else if r \<noteq> [] \<and> (hd r = CHR ''.'' \<or> hd r = CHR ''e'' \<or> hd r = CHR ''E'') then Unmodelled
         else if digits_value ds \<ge> 9007199254740992 then Unmodelled
         else Parsed (JNum (int_to_string (if neg then - digits_value ds else digits_value ds))) r)"

fun parse_value :: "nat \<Rightarrow> string \<Rightarrow> jsvalue parse"
  and parse_elements :: "nat \<Rightarrow> string \<Rightarrow> jsvalue list parse"
  and parse_members :: "nat \<Rightarrow> string \<Rightarrow> (string \<times> jsvalue) list parse" where
  "parse_value 0 s = Unmodelled"
| "parse_value (Suc n) s =
     (case skip_ws s of
        [] \<Rightarrow> SyntaxError
      | c # cs \<Rightarrow>
          if c = CHR ''{'' then
            (case skip_ws cs of
               [] \<Rightarrow> SyntaxError
             | d # ds \<Rightarrow>
                 if d = CHR ''}'' then Parsed (JObj []) ds
                 else (case parse_members n (d # ds) of
                         Parsed ms r \<Rightarrow> Parsed (JObj ms) r
                       | SyntaxError \<Rightarrow> SyntaxError
                       | Unmodelled \<Rightarrow> Unmodelled))
          else if c = CHR ''['' then
            (case skip_ws cs of
               [] \<Rightarrow> SyntaxError
             | d # ds \<Rightarrow>
                 if d = CHR '']'' then Parsed (JArr []) ds
                 else (case parse_elements n (d # ds) of
                         Parsed vs r \<Rightarrow> Parsed (JArr vs) r
                       | SyntaxError \<Rightarrow> SyntaxError
                       | Unmodelled \<Rightarrow> Unmodelled))
          else if c = CHR 0x22 then
            (case parse_string cs of
               Parsed str r \<Rightarrow> Parsed (JStr str) r
             | SyntaxError \<Rightarrow> SyntaxError
             | Unmodelled \<Rightarrow> Unmodelled)
          else if c = CHR ''-'' \<or> is_digit c then parse_number (c # cs)
          else if prefix ''true'' (c # cs) then Parsed (JBool True) (drop 4 (c # cs))
          else if prefix ''false'' (c # cs) then Parsed (JBool False) (drop 5 (c # cs))
          else if prefix ''null'' (c # cs) then Parsed JNull (drop 4 (c # cs))
          else SyntaxError)"
| "parse_elements 0 s = Unmodelled"
| "parse_elements (Suc n) s =
     (case parse_value n s of
        Parsed v r \<Rightarrow>
          (case skip_ws r of
             [] \<Rightarrow> SyntaxError
           | c # cs \<Rightarrow>
               if c = CHR '']'' then Parsed [v] cs
               else if c = CHR '','' then
                 (case parse_elements n cs of
                    Parsed vs r' \<Rightarrow> Parsed (v # vs) r'
                  | SyntaxError \<Rightarrow> SyntaxError
                  | Unmodelled \<Rightarrow> Unmodelled)
               else SyntaxError)
      | SyntaxError \<Rightarrow> SyntaxError
      | Unmodelled \<Rightarrow> Unmodelled)"
| "parse_members 0 s = Unmodelled"
| "parse_members (Suc n) s =
     (case skip_ws s of
        [] \<Rightarrow> SyntaxError
      | c # cs \<Rightarrow>
          if c \<noteq> CHR 0x22 then SyntaxError
          else (case parse_string cs of
                  SyntaxError \<Rightarrow> SyntaxError
                | Unmodelled \<Rightarrow> Unmodelled
                | Parsed k r \<Rightarrow>
                    (case skip_ws r of
                       [] \<Rightarrow> SyntaxError
                     | d # ds \<Rightarrow>
                         if d \<noteq> CHR '':'' then SyntaxError
                         else (case parse_value n ds of
                                 SyntaxError \<Rightarrow> SyntaxError
                               | Unmodelled \<Rightarrow> Unmodelled
                               | Parsed v r' \<Rightarrow>
                                   (case skip_ws r' of
                                      [] \<Rightarrow> SyntaxError
                                    | e # es \<Rightarrow>
                                        if e = CHR ''}'' then Parsed [(k, v)] es
                                        else if e = CHR '','' then
                                          (case parse_members n es of
                                             Parsed ms r'' \<Rightarrow> Parsed ((k, v) # ms) r''
                                           | SyntaxError \<Rightarrow> SyntaxError
                                           | Unmodelled \<Rightarrow> Unmodelled)
                                        else SyntaxError)))))"

datatype JSON_result = JSON_value jsvalue | JSON_SyntaxError | JSON_unmodelled

definition JSON_parse :: "string \<Rightarrow> JSON_result" where
  "JSON_parse text =
     (case parse_value (2 * length text + 2) text of
        Parsed v r \<Rightarrow> if skip_ws r = [] then JSON_value v else JSON_SyntaxError
      | SyntaxError \<Rightarrow> JSON_SyntaxError
      | Unmodelled \<Rightarrow> JSON_unmodelled)"

text \<open>
  Reading the property \<open>k\<close> of a decoded document, for the names \<^verbatim>\<open>message\<close> and
  \<^verbatim>\<open>error\<close> the code reads: \<open>None\<close> is the \<^verbatim>\<open>TypeError\<close> of reading a property of
  \<^verbatim>\<open>null\<close> or \<^verbatim>\<open>undefined\<close>; a value that is no object has neither property.
\<close>

fun getProp :: "jsvalue \<Rightarrow> string \<Rightarrow> jsvalue option" where
  "getProp JUndefined k = None"
| "getProp JNull k = None"
| "getProp (JObj fs) k = Some (case map_of (rev fs) k of None \<Rightarrow> JUndefined | Some v \<Rightarrow> v)"
| "getProp v k = Some JUndefined"

section \<open>The request engine (utils/apiClient.ts)\<close>

text \<open>
  A query parameter has the type \<^verbatim>\<open>string | number | boolean | undefined\<close>; the code also
  tests it for \<^verbatim>\<open>null\<close>. A number is given by the text \<^verbatim>\<open>String\<close> renders it as, as in
  \<open>jsvalue\<close>. \<open>String_param\<close> is \<^verbatim>\<open>String(value)\<close> on these values.
\<close>

datatype param_value = PString string | PNumber string | PBoolean bool | PUndefined | PNull

fun String_param :: "param_value \<Rightarrow> string" where
  "String_param (PString s) = s"
| "String_param (PNumber s) = s"
| "String_param (PBoolean b) = (if b then ''true'' else ''false'')"
| "String_param PUndefined = ''undefined''"
| "String_param PNull = ''null''"

record RequestOptions =
  opt_headers :: "headers option"
  opt_params :: "(string \<times> param_value) list option"
  opt_timeout :: "int option"

text \<open>\<^verbatim>\<open>options?.headers\<close> and \<^verbatim>\<open>options?.params\<close>, for options that may be omitted.\<close>

definition optHeaders :: "RequestOptions option \<Rightarrow> headers option" where
  "optHeaders options = (case options of None \<Rightarrow> None | Some opts \<Rightarrow> opt_headers opts)"

definition optParams :: "RequestOptions option \<Rightarrow> (string \<times> param_value) list option" where
  "optParams options = (case options of None \<Rightarrow> None | Some opts \<Rightarrow> opt_params opts)"

text \<open>
  \<^verbatim>\<open>buildHeaders(config, extraHeaders, isFormData)\<close>: the default headers, overlaid by the
  per-call headers; the JSON content type when the body is no \<^verbatim>\<open>FormData\<close> and the
  entry \<^verbatim>\<open>headers['Content-Type']\<close> is missing or empty; the bearer token when the
  capability returns a non-empty one.
\<close>

definition buildHeaders :: "ApiConfig \<Rightarrow> headers option \<Rightarrow> bool \<Rightarrow> headers" where
  "buildHeaders config extraHeaders isFormData =
     (let headers = defaultHeaders config ++ (case extraHeaders of None \<Rightarrow> Map.empty | Some h \<Rightarrow> h);
          headers = (if \<not> isFormData \<and>
                        (headers ''Content-Type'' = None \<or> headers ''Content-Type'' = Some [])
                     then headers(''Content-Type'' \<mapsto> ''application/json'') else headers);
          token = (case getAccessToken config of None \<Rightarrow> None | Some t \<Rightarrow> t)
      in case token of
           None \<Rightarrow> headers
         | Some t \<Rightarrow> if t \<noteq> [] then headers(''Authorization'' \<mapsto> ''Bearer '' @ t) else headers)"

text \<open>
  The repository holds another copy of the client, without multipart support (the first
  of the two texts of \<^verbatim>\<open>utils/apiClient.ts\<close>); its definitions carry the suffix
  \<open>_copy2\<close>. Its \<^verbatim>\<open>buildHeaders(config, extraHeaders)\<close> starts from the JSON content type,
  which the default and the per-call headers may override.
\<close>

definition buildHeaders_copy2 :: "ApiConfig \<Rightarrow> headers option \<Rightarrow> headers" where
  "buildHeaders_copy2 config extraHeaders =
     (let headers = [''Content-Type'' \<mapsto> ''application/json''] ++ defaultHeaders config
                      ++ (case extraHeaders of None \<Rightarrow> Map.empty | Some h \<Rightarrow> h);
          token = (case getAccessToken config of None \<Rightarrow> None | Some t \<Rightarrow> t)
      in case token of
           None \<Rightarrow> headers
         | Some t \<Rightarrow> if t \<noteq> [] then headers(''Authorization'' \<mapsto> ''Bearer '' @ t) else headers)"

text \<open>\<^verbatim>\<open>path.replace(/\/+$/, '')\<close>: the whole run of slashes at the end is removed.\<close>

definition normalizeURLPath :: "string \<Rightarrow> string" where
  "normalizeURLPath path = rev (dropWhile (\<lambda>c. c = CHR ''/'') (rev path))"

text \<open>
  The loop over \<^verbatim>\<open>Object.entries(params)\<close>: a parameter is appended, as a string, unless
  it is \<^verbatim>\<open>undefined\<close> or \<^verbatim>\<open>null\<close>.
\<close>

fun appendParams :: "URL \<Rightarrow> (string \<times> param_value) list \<Rightarrow> URL" where
  "appendParams url [] = url"
| "appendParams url ((key, v) # ps) =
     appendParams (if v \<noteq> PUndefined \<and> v \<noteq> PNull then URL_append url key (String_param v) else url) ps"

text \<open>
  \<^verbatim>\<open>buildURL(baseURL, endpoint, params)\<close>. \<open>None\<close> is a call of the URL constructor
  outside the modelled fragment; \<open>Inl\<close> is the \<^verbatim>\<open>TypeError\<close> the constructor throws.
\<close>

definition buildURL ::
  "string \<Rightarrow> string \<Rightarrow> (string \<times> param_value) list option \<Rightarrow> (js_error + string) option" where
  "buildURL base endpoint params =
     (let normalizedBase = normalizeURLPath base;
          normalizedEndpoint = normalizeURLPath endpoint
      in case URL_new normalizedEndpoint normalizedBase of
           URL_unmodelled \<Rightarrow> None
         | URL_TypeError \<Rightarrow> Some (Inl (TypeError_new ''Invalid URL''))
         | URL_ok url \<Rightarrow>
             Some (Inr (URL_toString (case params of None \<Rightarrow> url | Some ps \<Rightarrow> appendParams url ps))))"


text \<open>
  What \<^verbatim>\<open>request\<close> hands to \<^verbatim>\<open>fetch\<close>. \<open>JsonBody v\<close> is the text
  \<^verbatim>\<open>JSON.stringify(v)\<close>; \<open>FormDataBody\<close> is the \<^verbatim>\<open>FormData\<close> passed as it is. The abort
  signal is part of the outcome below.
\<close>

datatype sent_body = NoBody | FormDataBody "(string \<times> string) list" | JsonBody jsvalue

record fetch_request =
  req_url :: string
  req_method :: string
  req_headers :: headers
  req_body :: sent_body

text \<open>
  A response: its status (on the platform an integer from 0 to 65535, which a template
  literal renders as its decimal numeral), \<^verbatim>\<open>headers.get('content-length')\<close>, and the text
  of its body (\<open>None\<close> when reading the body fails). \<^verbatim>\<open>response.ok\<close> is a status from 200
  to 299.
\<close>

record http_response =
  resp_status :: int
  content_length :: "string option"
  body_text :: "string option"

definition ok :: "http_response \<Rightarrow> bool" where
  "ok r = (200 \<le> resp_status r \<and> resp_status r \<le> 299)"

text \<open>
  The outcome of the exchange: \<^verbatim>\<open>fetch\<close> resolves with a response or rejects with a
  thrown value. When the timer fires first, \<^verbatim>\<open>controller.abort()\<close> makes \<^verbatim>\<open>fetch\<close>
  reject with the platform's \<^verbatim>\<open>DOMException\<close> named \<^verbatim>\<open>AbortError\<close>, an instance of
  \<^verbatim>\<open>Error\<close> whose message differs between platforms.
\<close>

datatype fetch_outcome = Responds http_response | Rejects js_error

text \<open>A network that answers every exchange with the same outcome.\<close>

definition always :: "fetch_outcome \<Rightarrow> fetch_request \<Rightarrow> fetch_outcome" where
  "always outcome req = outcome"

definition DOMException_AbortError :: "string \<Rightarrow> js_error" where
  "DOMException_AbortError msg =
     \<lparr>isError = True, name = ''AbortError'', message = msg, status = None, response = None\<rparr>"

definition sentBody :: "jsvalue \<Rightarrow> sent_body" where
  "sentBody body =
     (if truthy body
      then (case body of JFormData fd \<Rightarrow> FormDataBody fd | _ \<Rightarrow> JsonBody body)
      else NoBody)"

definition effectiveTimeout :: "ApiConfig \<Rightarrow> RequestOptions option \<Rightarrow> int" where
  "effectiveTimeout config options =
     (case options of
        None \<Rightarrow> timeout config
      | Some opts \<Rightarrow>
          (case opt_timeout opts of
             None \<Rightarrow> timeout config
           | Some t \<Rightarrow> if t \<noteq> 0 then t else timeout config))"

text \<open>
  The branch of a response that is not \<^verbatim>\<open>ok\<close>: the error \<^verbatim>\<open>request\<close> throws there
  (\<open>None\<close>: the body text is outside the modelled fragment of \<^verbatim>\<open>JSON.parse\<close>). The
  \<^verbatim>\<open>catch\<close> of the inner \<^verbatim>\<open>try\<close> handles the \<^verbatim>\<open>SyntaxError\<close> of \<^verbatim>\<open>JSON.parse\<close> and the
  \<^verbatim>\<open>TypeError\<close> of reading \<^verbatim>\<open>errorJson.message\<close> alike. The error classes pass the
  message to the \<^verbatim>\<open>Error\<close> constructor, which converts it to a string: when that
  conversion throws, its \<^verbatim>\<open>TypeError\<close> is what is thrown.
\<close>

definition errorFromResponse :: "string \<Rightarrow> string \<Rightarrow> http_response \<Rightarrow> js_error option" where
  "errorFromResponse method endpoint r =
     (let text = (case body_text r of None \<Rightarrow> [] | Some t \<Rightarrow> t);
          errorMessage = ''API '' @ method @ '' '' @ endpoint @ '' failed: ''
                           @ int_to_string (resp_status r);
          caught = (if text \<noteq> [] then errorMessage @ '' - '' @ text else errorMessage)
      in case JSON_parse text of
           JSON_unmodelled \<Rightarrow> None
         | JSON_SyntaxError \<Rightarrow> Some (createErrorFromStatus (resp_status r) caught (JStr text))
         | JSON_value errorJson \<Rightarrow>
             (case getProp errorJson ''message'' of
                None \<Rightarrow> Some (createErrorFromStatus (resp_status r) caught (JStr text))
              | Some m \<Rightarrow>
                  (let e = (case getProp errorJson ''error'' of None \<Rightarrow> JUndefined | Some e \<Rightarrow> e);
                       msg = (if truthy m then m else if truthy e then e else JStr errorMessage)
                   in case ToString msg of
                        Inl thrown \<Rightarrow> Some thrown
                      | Inr s \<Rightarrow> Some (createErrorFromStatus (resp_status r) s (JStr text)))))"

text \<open>
  The body of the outer \<^verbatim>\<open>try\<close> after \<^verbatim>\<open>fetch\<close>: \<open>Inl\<close> is a value thrown inside the
  \<^verbatim>\<open>try\<close>, \<open>Inr\<close> a value returned. The empty result \<^verbatim>\<open>{}\<close> is \<open>JObj []\<close>.
\<close>

definition tryBlock :: "string \<Rightarrow> string \<Rightarrow> fetch_outcome \<Rightarrow> (js_error + jsvalue) option" where
  "tryBlock method endpoint outcome =
     (case outcome of
        Rejects e \<Rightarrow> Some (Inl e)
      | Responds r \<Rightarrow>
          if \<not> ok r then map_option Inl (errorFromResponse method endpoint r)
          else if resp_status r = 204 \<or> content_length r = Some ''0'' then Some (Inr (JObj []))
          else (case body_text r of
                  None \<Rightarrow> Some (Inl (NetworkError_new ''Failed to parse response JSON''))
                | Some t \<Rightarrow>
                    (case JSON_parse t of
                       JSON_unmodelled \<Rightarrow> None
                     | JSON_SyntaxError \<Rightarrow> Some (Inl (NetworkError_new ''Failed to parse response JSON''))
                     | JSON_value v \<Rightarrow> Some (Inr v))))"

text \<open>The outer \<^verbatim>\<open>catch\<close>: the error it throws for the error it caught.\<close>

definition catchBlock :: "int \<Rightarrow> js_error \<Rightarrow> js_error" where
  "catchBlock timeoutMs error =
     (if isError error \<and> sublist ''Error'' (name error) then error
      else if isError error \<and> name error = ''AbortError''
      then NetworkError_new (''Request timeout after '' @ int_to_string timeoutMs @ ''ms'')
      else NetworkError_new ''Network request failed'')"

text \<open>The argument of \<^verbatim>\<open>fetch\<close>, for the URL that \<open>buildURL\<close> made.\<close>

definition fetchRequest ::
  "ApiConfig \<Rightarrow> string \<Rightarrow> string \<Rightarrow> jsvalue \<Rightarrow> RequestOptions option \<Rightarrow> fetch_request" where
  "fetchRequest config method url body options =
     \<lparr>req_url = url,
      req_method = method,
      req_headers = buildHeaders config (optHeaders options) (instanceofFormData body),
      req_body = sentBody body\<rparr>"

text \<open>
  \<^verbatim>\<open>request(config, method, endpoint, body, options)\<close>, with the network as the function
  \<open>fetch\<close> from the exchange sent to its outcome. \<open>buildURL\<close> is called before the
  \<^verbatim>\<open>try\<close>, so that its \<^verbatim>\<open>TypeError\<close> is thrown as it is. \<open>Inl\<close> is the error thrown to the
  caller, \<open>Inr\<close> the value returned; \<open>None\<close> is a run that leaves the modelled fragment of
  the platform.
\<close>

definition request ::
  "ApiConfig \<Rightarrow> string \<Rightarrow> string \<Rightarrow> jsvalue \<Rightarrow> RequestOptions option
     \<Rightarrow> (fetch_request \<Rightarrow> fetch_outcome) \<Rightarrow> (js_error + jsvalue) option" where
  "request config method endpoint body options fetch =
     (case buildURL (baseURL config) endpoint (optParams options) of
        None \<Rightarrow> None
      | Some (Inl e) \<Rightarrow> Some (Inl e)
      | Some (Inr url) \<Rightarrow>
          (case tryBlock method endpoint (fetch (fetchRequest config method url body options)) of
             None \<Rightarrow> None
           | Some (Inr v) \<Rightarrow> Some (Inr v)
           | Some (Inl e) \<Rightarrow> Some (Inl (catchBlock (effectiveTimeout config options) e))))"

section \<open>The copy of the request engine without multipart support\<close>

text \<open>
  The other copy of \<^verbatim>\<open>apiClient.ts\<close> differs in three places: \<^verbatim>\<open>buildHeaders\<close> (above),
  \<^verbatim>\<open>buildURL\<close>, which passes the endpoint and the base address to the URL constructor as
  they are, and the body of the exchange, which is
  \<^verbatim>\<open>body ? JSON.stringify(body) : undefined\<close>. The rest of \<^verbatim>\<open>request\<close> is the same text.
\<close>

definition buildURL_copy2 ::
  "string \<Rightarrow> string \<Rightarrow> (string \<times> param_value) list option \<Rightarrow> (js_error + string) option" where
  "buildURL_copy2 base endpoint params =
     (case URL_new endpoint base of
        URL_unmodelled \<Rightarrow> None
      | URL_TypeError \<Rightarrow> Some (Inl (TypeError_new ''Invalid URL''))
      | URL_ok url \<Rightarrow>
          Some (Inr (URL_toString (case params of None \<Rightarrow> url | Some ps \<Rightarrow> appendParams url ps))))"

definition sentBody_copy2 :: "jsvalue \<Rightarrow> sent_body" where
  "sentBody_copy2 body = (if truthy body then JsonBody body else NoBody)"

definition fetchRequest_copy2 ::
  "ApiConfig \<Rightarrow> string \<Rightarrow> string \<Rightarrow> jsvalue \<Rightarrow> RequestOptions option \<Rightarrow> fetch_request" where
  "fetchRequest_copy2 config method url body options =
     \<lparr>req_url = url,
      req_method = method,
      req_headers = buildHeaders_copy2 config (optHeaders options),
      req_body = sentBody_copy2 body\<rparr>"

definition request_copy2 ::
  "ApiConfig \<Rightarrow> string \<Rightarrow> string \<Rightarrow> jsvalue \<Rightarrow> RequestOptions option
     \<Rightarrow> (fetch_request \<Rightarrow> fetch_outcome) \<Rightarrow> (js_error + jsvalue) option" where
  "request_copy2 config method endpoint body options fetch =
     (case buildURL_copy2 (baseURL config) endpoint (optParams options) of
        None \<Rightarrow> None
      | Some (Inl e) \<Rightarrow> Some (Inl e)
      | Some (Inr url) \<Rightarrow>
          (case tryBlock method endpoint (fetch (fetchRequest_copy2 config method url body options)) of
             None \<Rightarrow> None
           | Some (Inr v) \<Rightarrow> Some (Inr v)
           | Some (Inl e) \<Rightarrow> Some (Inl (catchBlock (effectiveTimeout config options) e))))"

section \<open>Error classification\<close>

text \<open>
  C2. \<open>createErrorFromStatus\<close> is a total function of the status: 400 gives Validation,
  401 Authentication, 403 Authorization, 404 NotFound, 409 Conflict, every status from 500
  on Server, and every other status Generic; the error carries the status it was made
  from, and its kind is the same whatever the message and the raw body are.
\<close>

theorem createErrorFromStatus_kind:
  "kind (createErrorFromStatus st msg body) =
     Some (if st = 400 then Validation
           else if st = 401 then Authentication
           else if st = 403 then Authorization
           else if st = 404 then NotFound
           else if st = 409 then Conflict
           else if st \<ge> 500 then Server
           else Generic)
   \<and> status (createErrorFromStatus st msg body) = Some st
   \<and> kind (createErrorFromStatus st msg body) = kind (createErrorFromStatus st msg' body')"
  by (simp add: createErrorFromStatus_def kind_def Let_def ValidationError_new_def
      AuthenticationError_new_def AuthorizationError_new_def NotFoundError_new_def
      ConflictError_new_def ServerError_new_def ERPServiceError_new_def)

theorem createErrorFromStatus_kind_witness:
  "kind (createErrorFromStatus 503 ''down'' (JStr ''x'')) = Some Server
   \<and> status (createErrorFromStatus 503 ''down'' (JStr ''x'')) = Some 503
   \<and> kind (createErrorFromStatus 418 ''teapot'' JUndefined) = Some Generic
   \<and> status (createErrorFromStatus 418 ''teapot'' JUndefined) = Some 418"
  using createErrorFromStatus_kind [of 503 "''down''" "JStr ''x''"]
    createErrorFromStatus_kind [of 418 "''teapot''" JUndefined]
  by simp

section \<open>Configuration normalization\<close>

lemma removeTrailingSlash_cases:
  "b = removeTrailingSlash b \<and> (b = [] \<or> last b \<noteq> CHR ''/'') \<or> b = removeTrailingSlash b @ ''/''"
  by (cases b rule: rev_cases) (auto simp: removeTrailingSlash_def)

text \<open>
  C5, as the code has it. \<open>validateConfig\<close> fails exactly when the base address is missing
  or empty, and the error is a plain \<^verbatim>\<open>Error\<close> with the message
  \<^verbatim>\<open>ERPServiceConfig.baseURL is required\<close>, which has no kind of the taxonomy. On every
  other input it returns a record whose base address is the supplied one with at most one
  slash removed from its end, whose default headers are the supplied mapping or the empty
  one, whose timeout is the supplied one or 30000 when that is missing or zero, and whose
  token capability is the supplied one.
\<close>

theorem validateConfig_normalizes:
  "((\<exists>e. validateConfig c = Inl e) \<longleftrightarrow> (user_baseURL c = None \<or> user_baseURL c = Some []))
   \<and> (validateConfig c = Inl e \<longrightarrow>
        e = Error_new ''ERPServiceConfig.baseURL is required'' \<and> kind e = None)
   \<and> (validateConfig c = Inr a \<longrightarrow>
        (user_baseURL c = Some (baseURL a) \<and> (baseURL a = [] \<or> last (baseURL a) \<noteq> CHR ''/'')
           \<or> user_baseURL c = Some (baseURL a @ ''/''))
        \<and> defaultHeaders a = (case user_defaultHeaders c of None \<Rightarrow> Map.empty | Some h \<Rightarrow> h)
        \<and> timeout a = (case user_timeout c of None \<Rightarrow> 30000 | Some t \<Rightarrow> if t = 0 then 30000 else t)
        \<and> getAccessToken a = user_getAccessToken c)"
proof -
  have fails: "(\<exists>e. validateConfig c = Inl e) \<longleftrightarrow> (user_baseURL c = None \<or> user_baseURL c = Some [])"
    by (auto simp: validateConfig_def split: option.splits if_splits)
  have err: "validateConfig c = Inl e \<longrightarrow>
        e = Error_new ''ERPServiceConfig.baseURL is required'' \<and> kind e = None"
    by (auto simp: validateConfig_def Error_new_def kind_def split: option.splits if_splits)
  have good: "validateConfig c = Inr a \<longrightarrow>
        (user_baseURL c = Some (baseURL a) \<and> (baseURL a = [] \<or> last (baseURL a) \<noteq> CHR ''/'')
           \<or> user_baseURL c = Some (baseURL a @ ''/''))
        \<and> defaultHeaders a = (case user_defaultHeaders c of None \<Rightarrow> Map.empty | Some h \<Rightarrow> h)
        \<and> timeout a = (case user_timeout c of None \<Rightarrow> 30000 | Some t \<Rightarrow> if t = 0 then 30000 else t)
        \<and> getAccessToken a = user_getAccessToken c"
  proof
    assume ok: "validateConfig c = Inr a"
    then obtain b where b: "user_baseURL c = Some b" "b \<noteq> []"
      by (auto simp: validateConfig_def split: option.splits if_splits)
    with ok have a: "a = \<lparr>baseURL = removeTrailingSlash b,
                    defaultHeaders = (case user_defaultHeaders c of None \<Rightarrow> Map.empty | Some h \<Rightarrow> h),
                    getAccessToken = user_getAccessToken c,
                    timeout = (case user_timeout c of None \<Rightarrow> 30000 | Some t \<Rightarrow> if t = 0 then 30000 else t)\<rparr>"
      by (simp add: validateConfig_def)
    show "(user_baseURL c = Some (baseURL a) \<and> (baseURL a = [] \<or> last (baseURL a) \<noteq> CHR ''/'')
           \<or> user_baseURL c = Some (baseURL a @ ''/''))
        \<and> defaultHeaders a = (case user_defaultHeaders c of None \<Rightarrow> Map.empty | Some h \<Rightarrow> h)
        \<and> timeout a = (case user_timeout c of None \<Rightarrow> 30000 | Some t \<Rightarrow> if t = 0 then 30000 else t)
        \<and> getAccessToken a = user_getAccessToken c"
      using removeTrailingSlash_cases [of b] b by (auto simp: a)
  qed
  from fails err good show ?thesis by blast
qed

theorem validateConfig_normalizes_witness:
  "validateConfig \<lparr>user_baseURL = Some ''https://erp.example.com/'', user_defaultHeaders = None,
       user_getAccessToken = Some (Some ''abc123''), user_timeout = Some 0\<rparr>
     = Inr \<lparr>baseURL = ''https://erp.example.com'', defaultHeaders = Map.empty,
            getAccessToken = Some (Some ''abc123''), timeout = 30000\<rparr>
   \<and> validateConfig \<lparr>user_baseURL = Some [], user_defaultHeaders = None,
       user_getAccessToken = None, user_timeout = None\<rparr>
     = Inl (Error_new ''ERPServiceConfig.baseURL is required'')
   \<and> kind (Error_new ''ERPServiceConfig.baseURL is required'') = None"
  using validateConfig_normalizes
    [of "\<lparr>user_baseURL = Some ''https://erp.example.com/'', user_defaultHeaders = None,
       user_getAccessToken = Some (Some ''abc123''), user_timeout = Some 0\<rparr>"
       "Error_new ''ERPServiceConfig.baseURL is required''"
       "\<lparr>baseURL = ''https://erp.example.com'', defaultHeaders = Map.empty,
            getAccessToken = Some (Some ''abc123''), timeout = 30000\<rparr>"]
    validateConfig_normalizes
    [of "\<lparr>user_baseURL = Some [], user_defaultHeaders = None,
       user_getAccessToken = None, user_timeout = None\<rparr>"
       "Error_new ''ERPServiceConfig.baseURL is required''"]
  by (simp add: validateConfig_def removeTrailingSlash_def)

text \<open>
  C5 as stated fails: of two slashes at the end of the base address only one is removed,
  so that the normalized base address still ends in a slash; and the error for a missing
  base address is not of the Validation kind.
\<close>

theorem validateConfig_counterexample:
  "map_sum name baseURL
     (validateConfig \<lparr>user_baseURL = Some ''https://erp.example.com//'', user_defaultHeaders = None,
        user_getAccessToken = None, user_timeout = None\<rparr>)
     = Inr ''https://erp.example.com/''
   \<and> map_sum kind baseURL
     (validateConfig \<lparr>user_baseURL = None, user_defaultHeaders = None,
        user_getAccessToken = None, user_timeout = None\<rparr>)
     = Inl None"
  by (simp add: validateConfig_def removeTrailingSlash_def Error_new_def kind_def)

section \<open>Headers and body of the exchange\<close>

text \<open>
  C4, as the code has it, for the copy of the client with multipart support (the
  \<^verbatim>\<open>buildHeaders\<close> with the parameter \<^verbatim>\<open>isFormData\<close>, which \<open>fetchRequest\<close> calls). When
  the body is a \<^verbatim>\<open>FormData\<close>, this header builder adds no content type of its own: the
  \<^verbatim>\<open>Content-Type\<close> sent is the per-call one if there is one, else the configured default,
  else none. So the request carries a JSON content type only if the default or the per-call
  headers supply it.
\<close>

theorem formdata_content_type_passthrough:
  "instanceofFormData body \<Longrightarrow>
     req_headers (fetchRequest config method url body options) ''Content-Type''
       = (defaultHeaders config ++ (case optHeaders options of None \<Rightarrow> Map.empty | Some h \<Rightarrow> h))
           ''Content-Type''
     \<and> (defaultHeaders config ''Content-Type'' \<noteq> Some ''application/json''
          \<and> (\<forall>h. optHeaders options = Some h \<longrightarrow> h ''Content-Type'' \<noteq> Some ''application/json'')
        \<longrightarrow> req_headers (fetchRequest config method url body options) ''Content-Type''
              \<noteq> Some ''application/json'')"
  by (auto simp: fetchRequest_def buildHeaders_def Let_def map_add_def split: option.splits)

theorem formdata_content_type_passthrough_witness:
  "instanceofFormData (JFormData [(''file'', ''logo.png'')])
   \<and> req_headers (fetchRequest
         \<lparr>baseURL = ''https://erp.example.com'', defaultHeaders = map_of [(''X-Client'', ''erp'')],
            getAccessToken = Some (Some ''abc123''), timeout = 30000\<rparr>
         ''POST'' ''https://erp.example.com/api/v1/attachments''
         (JFormData [(''file'', ''logo.png'')]) None) ''Content-Type'' = None"
  using formdata_content_type_passthrough
    [of "JFormData [(''file'', ''logo.png'')]"
        "\<lparr>baseURL = ''https://erp.example.com'', defaultHeaders = map_of [(''X-Client'', ''erp'')],
            getAccessToken = Some (Some ''abc123''), timeout = 30000\<rparr>"
        "''POST''" "''https://erp.example.com/api/v1/attachments''" None]
  by (simp add: optHeaders_def map_add_def)

text \<open>
  C4 as stated fails in the copy with multipart support: with the default header
  \<^verbatim>\<open>Content-Type: application/json\<close> in the configuration, a \<^verbatim>\<open>FormData\<close> request is
  sent with the JSON content type.
\<close>

theorem formdata_content_type_counterexample:
  "req_headers (fetchRequest
       \<lparr>baseURL = ''https://erp.example.com'',
          defaultHeaders = map_of [(''Content-Type'', ''application/json'')],
          getAccessToken = None, timeout = 30000\<rparr>
       ''POST'' ''https://erp.example.com/api/v1/attachments''
       (JFormData [(''file'', ''logo.png'')]) None) ''Content-Type'' = Some ''application/json''"
  by (simp add: fetchRequest_def buildHeaders_def optHeaders_def map_add_def)

text \<open>
  The header builder of the other copy takes no account of the body: unless the default or
  the per-call headers name a content type, it sends the JSON one, with a \<^verbatim>\<open>FormData\<close>
  body as with any other.
\<close>

lemma buildHeaders_copy2_content_type:
  assumes "defaultHeaders config ''Content-Type'' = None"
    and "\<forall>h. optHeaders options = Some h \<longrightarrow> h ''Content-Type'' = None"
  shows "req_headers (fetchRequest_copy2 config method url body options) ''Content-Type''
           = Some ''application/json''"
  using assms
  by (auto simp: fetchRequest_copy2_def buildHeaders_copy2_def Let_def map_add_def
      split: option.splits)

text \<open>
  The body of the exchange in the copy with multipart support: the JSON text of a value
  exactly when that value is the body argument, truthy and no \<^verbatim>\<open>FormData\<close>.
\<close>

lemma json_body_iff:
  "req_body (fetchRequest config method url body options) = JsonBody v
     \<longleftrightarrow> truthy body \<and> \<not> instanceofFormData body \<and> v = body"
  by (cases body) (auto simp: fetchRequest_def sentBody_def)

lemma falsy_body_same_exchange:
  assumes "\<not> truthy body"
  shows "fetchRequest config method url body options
           = fetchRequest config method url JUndefined options"
proof -
  from assms have fd: "instanceofFormData body = instanceofFormData JUndefined"
    by (cases body) simp_all
  from assms have sb: "sentBody body = sentBody JUndefined"
    by (simp add: sentBody_def)
  show ?thesis unfolding fetchRequest_def sb fd ..
qed

text \<open>
  In both copies a falsy body is not sent: the exchange has no body and is the very
  exchange of a request without body, and so is the outcome of the request.
\<close>

lemma falsy_body_not_sent:
  assumes "\<not> truthy body"
  shows "req_body (fetchRequest config method url body options) = NoBody"
    and "fetchRequest config method url body options
           = fetchRequest config method url JUndefined options"
    and "request config method endpoint body options fetch
           = request config method endpoint JUndefined options fetch"
proof -
  show "req_body (fetchRequest config method url body options) = NoBody"
    using assms by (simp add: fetchRequest_def sentBody_def)
  show "fetchRequest config method url body options
           = fetchRequest config method url JUndefined options"
    by (rule falsy_body_same_exchange [OF assms])
  show "request config method endpoint body options fetch
           = request config method endpoint JUndefined options fetch"
    unfolding request_def falsy_body_same_exchange [OF assms] ..
qed

lemma falsy_body_not_sent_copy2:
  assumes "\<not> truthy body"
  shows "req_body (fetchRequest_copy2 config method url body options) = NoBody"
    and "fetchRequest_copy2 config method url body options
           = fetchRequest_copy2 config method url JUndefined options"
    and "request_copy2 config method endpoint body options fetch
           = request_copy2 config method endpoint JUndefined options fetch"
proof -
  have eq: "fetchRequest_copy2 config method u body options
              = fetchRequest_copy2 config method u JUndefined options" for u
    using assms by (simp add: fetchRequest_copy2_def sentBody_copy2_def)
  show "req_body (fetchRequest_copy2 config method url body options) = NoBody"
    using assms by (simp add: fetchRequest_copy2_def sentBody_copy2_def)
  show "fetchRequest_copy2 config method url body options
           = fetchRequest_copy2 config method url JUndefined options"
    by (rule eq)
  show "request_copy2 config method endpoint body options fetch
           = request_copy2 config method endpoint JUndefined options fetch"
    unfolding request_copy2_def eq ..
qed

text \<open>
  C10, on the code. The copy of \<^verbatim>\<open>request\<close> without multipart support sends
  \<^verbatim>\<open>body ? JSON.stringify(body) : undefined\<close>: a \<^verbatim>\<open>FormData\<close> body, which is truthy, is
  sent as its JSON text, where the copy with multipart support passes it as it is. So it is
  not only the truthy bodies that are no multipart payload that are JSON-stringified.
\<close>

theorem formdata_stringified_copy2:
  "req_body (fetchRequest_copy2
       \<lparr>baseURL = ''https://erp.example.com'', defaultHeaders = map_of [],
          getAccessToken = None, timeout = 30000\<rparr>
       ''POST'' ''https://erp.example.com/api/v1/attachments''
       (JFormData [(''file'', ''logo.png'')]) None)
     = JsonBody (JFormData [(''file'', ''logo.png'')])
   \<and> req_body (fetchRequest
       \<lparr>baseURL = ''https://erp.example.com'', defaultHeaders = map_of [],
          getAccessToken = None, timeout = 30000\<rparr>
       ''POST'' ''https://erp.example.com/api/v1/attachments''
       (JFormData [(''file'', ''logo.png'')]) None)
     = FormDataBody [(''file'', ''logo.png'')]"
  by (simp add: fetchRequest_copy2_def sentBody_copy2_def fetchRequest_def sentBody_def)

section \<open>Outcomes of a request\<close>

text \<open>
  The errors the engine makes itself have class names that contain \<^verbatim>\<open>Error\<close>, so the
  outer \<^verbatim>\<open>catch\<close> throws them again as they are. So does the name \<^verbatim>\<open>AbortError\<close>:
  the first test of the \<^verbatim>\<open>catch\<close> takes every error that the test for a timeout would
  take, and the branch that makes the timeout error is never reached.
\<close>

lemma sublist_Error_AbortError: "sublist ''Error'' ''AbortError''"
  by code_simp




lemma catchBlock_timeout_unreachable:
  "catchBlock ms e = (if isError e \<and> sublist ''Error'' (name e) then e
                      else NetworkError_new ''Network request failed'')"
  by (auto simp: catchBlock_def sublist_Error_AbortError)

text \<open>
  C1, on the code. When the timer fires first and \<^verbatim>\<open>fetch\<close> rejects with the platform's
  \<^verbatim>\<open>AbortError\<close>, \<open>request\<close> throws that very error to the caller, and it is not the
  Network error with the message \<^verbatim>\<open>Request timeout after {ms}ms\<close> of the effective
  timeout, which the specification requires and the second test of the \<^verbatim>\<open>catch\<close> was
  written to make.
\<close>

theorem timeout_rethrows_abort:
  assumes "buildURL (baseURL config) endpoint (optParams options) = Some (Inr url)"
    and "fetch (fetchRequest config method url body options) = Rejects e"
    and "isError e" and "name e = ''AbortError''"
  shows "request config method endpoint body options fetch = Some (Inl e)
         \<and> e \<noteq> NetworkError_new (''Request timeout after ''
                   @ int_to_string (effectiveTimeout config options) @ ''ms'')"
  using assms
  by (auto simp: request_def tryBlock_def catchBlock_def sublist_Error_AbortError
      NetworkError_new_def ERPServiceError_new_def)

theorem timeout_rethrows_abort_witness:
  "request \<lparr>baseURL = ''https://erp.example.com'', defaultHeaders = map_of [],
             getAccessToken = None, timeout = 50\<rparr>
      ''GET'' ''/api/v1/sales'' JUndefined None
      (always (Rejects (DOMException_AbortError ''This operation was aborted'')))
     = Some (Inl (DOMException_AbortError ''This operation was aborted''))
   \<and> DOMException_AbortError ''This operation was aborted''
       \<noteq> NetworkError_new ''Request timeout after 50ms''"
proof -
  let ?cfg = "\<lparr>baseURL = ''https://erp.example.com'', defaultHeaders = map_of [],
                getAccessToken = None, timeout = 50\<rparr>"
  let ?e = "DOMException_AbortError ''This operation was aborted''"
  have u: "buildURL (baseURL ?cfg) ''/api/v1/sales'' (optParams None)
             = Some (Inr ''https://erp.example.com/api/v1/sales'')"
    by code_simp
  have f: "always (Rejects ?e)
             (fetchRequest ?cfg ''GET'' ''https://erp.example.com/api/v1/sales'' JUndefined None)
           = Rejects ?e"
    by (simp add: always_def)
  have i: "isError ?e" and n: "name ?e = ''AbortError''"
    by (simp_all add: DOMException_AbortError_def)
  have d: "?e \<noteq> NetworkError_new ''Request timeout after 50ms''"
    by (simp add: DOMException_AbortError_def NetworkError_new_def ERPServiceError_new_def)
  from timeout_rethrows_abort [where fetch = "always (Rejects ?e)", OF u f i n] d
  show ?thesis by blast
qed

text \<open>
  C8. A response in the success range with status 204, or with the content length
  \<^verbatim>\<open>0\<close>, gives the empty result \<^verbatim>\<open>{}\<close>, whatever the method and whatever the body
  text is: the body is not decoded.
\<close>

theorem empty_success_marker:
  assumes "buildURL (baseURL config) endpoint (optParams options) = Some (Inr url)"
    and "fetch (fetchRequest config method url body options) = Responds r"
    and "ok r"
    and "resp_status r = 204 \<or> content_length r = Some ''0''"
  shows "request config method endpoint body options fetch = Some (Inr (JObj []))"
  using assms by (auto simp: request_def tryBlock_def)

theorem empty_success_marker_witness:
  "buildURL (baseURL \<lparr>baseURL = ''https://erp.example.com'', defaultHeaders = map_of [],
                       getAccessToken = None, timeout = 30000\<rparr>)
       ''/api/v1/sales/1'' (optParams None) = Some (Inr ''https://erp.example.com/api/v1/sales/1'')
   \<and> ok \<lparr>resp_status = 200, content_length = Some ''0'', body_text = Some ''not-json''\<rparr>
   \<and> request \<lparr>baseURL = ''https://erp.example.com'', defaultHeaders = map_of [],
                getAccessToken = None, timeout = 30000\<rparr>
         ''DELETE'' ''/api/v1/sales/1'' JUndefined None
         (always (Responds \<lparr>resp_status = 200, content_length = Some ''0'', body_text = Some ''not-json''\<rparr>))
       = Some (Inr (JObj []))"
proof -
  let ?cfg = "\<lparr>baseURL = ''https://erp.example.com'', defaultHeaders = map_of [],
                getAccessToken = None, timeout = 30000\<rparr>"
  let ?r = "\<lparr>resp_status = 200, content_length = Some ''0'', body_text = Some ''not-json''\<rparr>"
  have u: "buildURL (baseURL ?cfg) ''/api/v1/sales/1'' (optParams None)
             = Some (Inr ''https://erp.example.com/api/v1/sales/1'')"
    by code_simp
  have f: "always (Responds ?r)
             (fetchRequest ?cfg ''DELETE'' ''https://erp.example.com/api/v1/sales/1'' JUndefined None)
           = Responds ?r"
    by (simp add: always_def)
  have k: "ok ?r" by (simp add: ok_def)
  have z: "resp_status ?r = 204 \<or> content_length ?r = Some ''0''" by simp
  from empty_success_marker [where fetch = "always (Responds ?r)", OF u f k z] u k
  show ?thesis by simp
qed



section \<open>Errors of a failed response\<close>













section \<open>The built URL\<close>

lemma appendParams_eq:
  "appendParams u ps =
     u\<lparr>searchParams := searchParams u
          @ map (\<lambda>(k, v). (k, String_param v)) (filter (\<lambda>(k, v). v \<noteq> PUndefined \<and> v \<noteq> PNull) ps)\<rparr>"
  by (induction u ps rule: appendParams.induct) (auto simp: URL_append_def)

lemma URL_new_no_query:
  "URL_new i b = URL_ok u \<Longrightarrow> searchParams u = []"
  by (auto simp: URL_new_def parse_base_def Let_def split: if_splits option.splits)

lemma URL_toString_query:
  "searchParams u = [] \<Longrightarrow>
     URL_toString (u\<lparr>searchParams := qs\<rparr>)
       = URL_toString u @ (if qs = [] then [] else CHR ''?'' # urlencoded_serialize qs)"
  by (simp add: URL_toString_def)

lemma present_once:
  assumes "distinct (map fst ps)" and "(k, v) \<in> set ps"
  shows "filter (\<lambda>(k', w). k' = k) (map (\<lambda>(k, v). (k, String_param v)) (filter P ps))
           = (if P (k, v) then [(k, String_param v)] else [])"
  using assms
proof (induction ps)
  case Nil
  then show ?case by simp
next
  case (Cons a ps)
  obtain k' v' where a: "a = (k', v')" by (cases a)
  show ?case
  proof (cases "k' = k")
    case True
    with Cons.prems a have "v' = v" and notin: "k \<notin> fst ` set ps"
      by (auto simp: rev_image_eqI)
    from notin have "filter (\<lambda>(k', w). k' = k) (map (\<lambda>(k, v). (k, String_param v)) (filter P ps)) = []"
      by (auto simp: filter_empty_conv rev_image_eqI)
    with True a \<open>v' = v\<close> show ?thesis by simp
  next
    case False
    with Cons a show ?thesis by auto
  qed
qed

text \<open>
  C6. For every mapping of query parameters (strings, numbers, booleans, \<^verbatim>\<open>undefined\<close>,
  \<^verbatim>\<open>null\<close>) with distinct keys: whenever the URL constructor accepts the normalized
  endpoint and base, the built URL is that URL followed, when at least one parameter is
  present, by \<open>?\<close> and the form-urlencoded pairs of the present parameters in the order of
  the mapping, each value converted by \<^verbatim>\<open>String\<close> and percent-encoded. A key whose value
  is \<^verbatim>\<open>undefined\<close> or \<^verbatim>\<open>null\<close> has no pair; every other key has exactly one.
\<close>

theorem buildURL_query_params:
  assumes "URL_new (normalizeURLPath endpoint) (normalizeURLPath base) = URL_ok u"
    and "distinct (map fst ps)"
  shows "let qs = map (\<lambda>(k, v). (k, String_param v))
                    (filter (\<lambda>(k, v). v \<noteq> PUndefined \<and> v \<noteq> PNull) ps)
         in buildURL base endpoint (Some ps)
              = Some (Inr (URL_toString u
                     @ (if qs = [] then [] else CHR ''?'' # urlencoded_serialize qs)))
            \<and> (\<forall>(k, v) \<in> set ps.
                  filter (\<lambda>(k', s). k' = k) qs
                    = (if v = PUndefined \<or> v = PNull then [] else [(k, String_param v)]))"
proof -
  have "buildURL base endpoint (Some ps)
          = Some (Inr (URL_toString (appendParams u ps)))"
    using assms(1) by (simp add: buildURL_def)
  moreover have "\<forall>(k, v) \<in> set ps.
      filter (\<lambda>(k', s). k' = k)
        (map (\<lambda>(k, v). (k, String_param v)) (filter (\<lambda>(k, v). v \<noteq> PUndefined \<and> v \<noteq> PNull) ps))
        = (if v = PUndefined \<or> v = PNull then [] else [(k, String_param v)])"
    using present_once [OF assms(2), where P = "\<lambda>(k, v). v \<noteq> PUndefined \<and> v \<noteq> PNull"]
    by auto
  moreover note nq = URL_new_no_query [OF assms(1)]
  ultimately show ?thesis
    by (simp add: appendParams_eq URL_toString_query [OF nq] nq Let_def)
qed

theorem buildURL_query_params_witness:
  "distinct (map fst [(''status'', PString ''in store/paid''), (''page'', PNumber ''2''),
       (''warehouse'', PUndefined), (''to'', PNull), (''paid'', PBoolean False),
       (''price'', PNumber ''9.99''), (''limit'', PNumber ''1e+21'')])
   \<and> buildURL ''https://erp.example.com/'' ''/api/v1/sales''
       (Some [(''status'', PString ''in store/paid''), (''page'', PNumber ''2''),
          (''warehouse'', PUndefined), (''to'', PNull), (''paid'', PBoolean False),
          (''price'', PNumber ''9.99''), (''limit'', PNumber ''1e+21'')])
     = Some (Inr (''https://erp.example.com/api/v1/sales''
          @ ''?status=in+store%2Fpaid&page=2&paid=false&price=9.99&limit=1e%2B21''))"
proof -
  let ?ps = "[(''status'', PString ''in store/paid''), (''page'', PNumber ''2''),
       (''warehouse'', PUndefined), (''to'', PNull), (''paid'', PBoolean False),
       (''price'', PNumber ''9.99''), (''limit'', PNumber ''1e+21'')]"
  let ?u = "\<lparr>url_scheme = ''https'', url_host = ''erp.example.com'',
             url_path = [''api'', ''v1'', ''sales''], searchParams = []\<rparr>"
  have u: "URL_new (normalizeURLPath ''/api/v1/sales'') (normalizeURLPath ''https://erp.example.com/'')
             = URL_ok ?u"
    by code_simp
  have d: "distinct (map fst ?ps)" by simp
  have s: "URL_toString ?u = ''https://erp.example.com/api/v1/sales''"
    by code_simp
  have q: "urlencoded_serialize [(''status'', ''in store/paid''), (''page'', ''2''),
               (''paid'', ''false''), (''price'', ''9.99''), (''limit'', ''1e+21'')]
             = ''status=in+store%2Fpaid&page=2&paid=false&price=9.99&limit=1e%2B21''"
    by code_simp
  from buildURL_query_params [OF u d] d show ?thesis
    by (simp add: Let_def s q)
qed



lemma normalizeURLPath_no_trailing:
  "normalizeURLPath s = [] \<or> last (normalizeURLPath s) \<noteq> CHR ''/''"
proof -
  have "dropWhile (\<lambda>c. c = CHR ''/'') (rev s) = [] \<or>
        hd (dropWhile (\<lambda>c. c = CHR ''/'') (rev s)) \<noteq> CHR ''/''"
    using hd_dropWhile [of "\<lambda>c. c = CHR ''/''" "rev s"] by blast
  then show ?thesis
    by (auto simp: normalizeURLPath_def last_rev)
qed













end
